theory Spec2Isabelle
  imports Main "HOL-Library.Word"
begin

section \<open>The request builder of httpclient (request.go)\<close>

text \<open>
  The development embeds \<^verbatim>\<open>request.go\<close>: the \<^verbatim>\<open>Request\<close> builder, its
  configuration methods, the materialisation of a transport request
  (\<^verbatim>\<open>toHTTPRequest\<close>), the retry executor (\<^verbatim>\<open>doRetry\<close>) and the terminal
  methods. Go's \<^verbatim>\<open>int\<close> is modelled by \<open>int\<close>: the only arithmetic of the file is
  \<^verbatim>\<open>retryCount-1\<close> under the guard \<^verbatim>\<open>retryCount > 0\<close>, which cannot overflow.
\<close>

subsection \<open>Values of the Go runtime and of the standard library\<close>

type_synonym byte = "8 word"

text \<open>A Go string is a sequence of bytes; \<^verbatim>\<open>[]byte(s)\<close> and \<^verbatim>\<open>string(b)\<close> convert.\<close>

definition bytes_of_string :: "string \<Rightarrow> byte list" where
  "bytes_of_string s = map (\<lambda>c. of_nat (of_char c)) s"

definition string_of_bytes :: "byte list \<Rightarrow> string" where
  "string_of_bytes b = map (\<lambda>x. char_of (unat x)) b"

text \<open>A Go \<^verbatim>\<open>error\<close> value; the nil error is \<open>None\<close> of \<open>error option\<close>.\<close>

datatype error = Err string

text \<open>
  A \<^verbatim>\<open>context.Context\<close>: the background context that \<^verbatim>\<open>http.NewRequest\<close>
  installs, or a context supplied by the caller (identified by a handle).
\<close>

datatype go_context = Background | Caller nat

text \<open>
  The transport-level request (\<^verbatim>\<open>http.Request\<close>) and response
  (\<^verbatim>\<open>http.Response\<close>). \<open>Header\<close> is \<^verbatim>\<open>http.Header\<close>, a map from header names to
  lists of values. \<open>Body\<close> holds the bytes that reading the body in full yields,
  \<open>None\<close> for the nil body.
\<close>

record HTTPRequest =
  Method :: string
  URL :: string
  Header :: "string \<rightharpoonup> string list"
  Body :: "byte list option"
  Ctx :: go_context

record HTTPResponse =
  StatusCode :: int
  RespBody :: "byte list"

text \<open>
  The functions of the standard library that the file calls and whose code is not part
  of the repository are parameters of the model; \<open>'v\<close> is the type of the Go values that
  are encoded and decoded (\<^verbatim>\<open>interface{}\<close>).
  \<^item> \<open>jsonEncode\<close>, \<open>xmlEncode\<close>: \<^verbatim>\<open>NewEncoder(buf).Encode(v)\<close> on an empty buffer: the
    bytes written to the buffer and the error returned;
  \<^item> \<open>jsonDecode\<close>, \<open>xmlDecode\<close>: \<^verbatim>\<open>NewDecoder(body).Decode(out)\<close>: from the bytes of
    the body and the old value of the target, the new value of the target and the error;
  \<^item> \<open>validMethod\<close>, \<open>parseURL\<close>: the two checks of \<^verbatim>\<open>http.NewRequest\<close>;
  \<^item> \<open>canonicalKey\<close>: \<^verbatim>\<open>textproto.CanonicalMIMEHeaderKey\<close>, applied by
    \<^verbatim>\<open>http.Header.Set\<close> to the name of the header;
  \<^item> \<open>rangeOrder\<close>: the order in which \<^verbatim>\<open>sync.Map.Range\<close> visits the keys of a map,
    which Go leaves unspecified.
\<close>

record 'v stdlib =
  jsonEncode :: "'v \<Rightarrow> byte list \<times> error option"
  xmlEncode :: "'v \<Rightarrow> byte list \<times> error option"
  jsonDecode :: "byte list \<Rightarrow> 'v \<Rightarrow> 'v \<times> error option"
  xmlDecode :: "byte list \<Rightarrow> 'v \<Rightarrow> 'v \<times> error option"
  validMethod :: "string \<Rightarrow> bool"
  parseURL :: "string \<Rightarrow> error + string"
  canonicalKey :: "string \<Rightarrow> string"
  rangeOrder :: "(string \<rightharpoonup> string) \<Rightarrow> string list"

text \<open>
  The transport (\<^verbatim>\<open>http.Client\<close>) is a black box with a state of its own, \<open>'w\<close>
  (the network, the servers, the read position of a request body): one send maps the
  state and the request to a transport error or a response, and a new state.
\<close>

type_synonym 'w transport = "'w \<Rightarrow> HTTPRequest \<Rightarrow> (error + HTTPResponse) \<times> 'w"

text \<open>
  The world a request runs in: the state of the transport, the requests handed to the
  transport so far (oldest first) and the responses released so far.
\<close>

record 'w world =
  net :: 'w
  sent :: "HTTPRequest list"
  released :: "HTTPResponse list"

text \<open>\<^verbatim>\<open>c.Do(r)\<close>: one invocation of the transport, recorded in \<open>sent\<close>.\<close>

definition client_Do :: "'w transport \<Rightarrow> HTTPRequest \<Rightarrow> 'w world \<Rightarrow> (error + HTTPResponse) \<times> 'w world" where
  "client_Do c r w = (case c (net w) r of (out, n) \<Rightarrow> (out, w\<lparr>net := n, sent := sent w @ [r]\<rparr>))"

text \<open>
  \<^verbatim>\<open>http.NewRequest(method, url, body)\<close>: the empty method stands for GET, an invalid method
  or an unparsable URL is an error; the new request has no header, the body given (a
  nil \<^verbatim>\<open>io.ReadWriter\<close> is the nil body; for an empty buffer the library installs
  \<^verbatim>\<open>http.NoBody\<close>, which reads as no bytes) and the background context.
\<close>

definition NewRequest :: "'v stdlib \<Rightarrow> string \<Rightarrow> string \<Rightarrow> byte list option \<Rightarrow> error + HTTPRequest" where
  "NewRequest lib m u b =
     (let m' = (if m = [] then ''GET'' else m) in
      if \<not> validMethod lib m' then Inl (Err ''net/http: invalid method'')
      else case parseURL lib u of
             Inl e \<Rightarrow> Inl e
           | Inr u' \<Rightarrow> Inr \<lparr>Method = m', URL = u', Header = Map.empty, Body = b, Ctx = Background\<rparr>)"

text \<open>\<^verbatim>\<open>h.Set(key, value)\<close> and \<^verbatim>\<open>h.Values(key)\<close> of \<^verbatim>\<open>http.Header\<close>.\<close>

definition Header_Set :: "'v stdlib \<Rightarrow> (string \<rightharpoonup> string list) \<Rightarrow> string \<Rightarrow> string \<Rightarrow> (string \<rightharpoonup> string list)" where
  "Header_Set lib h k v = h(canonicalKey lib k \<mapsto> [v])"

definition Header_Values :: "'v stdlib \<Rightarrow> (string \<rightharpoonup> string list) \<Rightarrow> string \<Rightarrow> string list" where
  "Header_Values lib h k = (case h (canonicalKey lib k) of None \<Rightarrow> [] | Some vs \<Rightarrow> vs)"

subsection \<open>The Request builder\<close>

text \<open>
  The struct \<^verbatim>\<open>Request\<close>. \<open>err\<close> is the deferred error (\<open>None\<close> is nil); \<open>header\<close> is
  the \<^verbatim>\<open>sync.Map\<close>, in which \<^verbatim>\<open>WithHeader\<close> stores strings under strings; \<open>body\<close> is
  the unread content of the \<^verbatim>\<open>bytes.Buffer\<close> behind the \<^verbatim>\<open>io.ReadWriter\<close>, \<open>None\<close>
  for the nil interface; \<open>ctx\<close> is \<open>None\<close> for the nil context. The field
  \<^verbatim>\<open>method\<close> is \<open>method_f\<close>, since \<open>method\<close> is a keyword of Isabelle.
\<close>

record 'w Request =
  err :: "error option"
  client :: "'w transport"
  method_f :: string
  baseURL :: string
  path :: string
  header :: "string \<rightharpoonup> string"
  expectedStatus :: int
  retryCount :: int
  body :: "byte list option"
  ctx :: "go_context option"

definition Error :: "'w Request \<Rightarrow> error option" where
  "Error r = err r"

definition WithBytes :: "byte list \<Rightarrow> 'w Request \<Rightarrow> 'w Request" where
  "WithBytes b r = r\<lparr>body := Some b\<rparr>"

definition WithString :: "string \<Rightarrow> 'w Request \<Rightarrow> 'w Request" where
  "WithString s r = r\<lparr>body := Some (bytes_of_string s)\<rparr>"

definition WithHeader :: "string \<Rightarrow> string \<Rightarrow> 'w Request \<Rightarrow> 'w Request" where
  "WithHeader key val r = r\<lparr>header := (header r)(key \<mapsto> val)\<rparr>"

definition WithContentType :: "string \<Rightarrow> 'w Request \<Rightarrow> 'w Request" where
  "WithContentType typ r = WithHeader ''Content-Type'' typ r"

definition WithJSON :: "'v stdlib \<Rightarrow> 'v \<Rightarrow> 'w Request \<Rightarrow> 'w Request" where
  "WithJSON lib v r =
     (let r1 = WithContentType ''application/json'' r;
          (written, e) = jsonEncode lib v
      in r1\<lparr>body := Some written, err := e\<rparr>)"

definition WithXML :: "'v stdlib \<Rightarrow> 'v \<Rightarrow> 'w Request \<Rightarrow> 'w Request" where
  "WithXML lib v r =
     (let r1 = WithContentType ''application/xml'' r;
          (written, e) = xmlEncode lib v
      in r1\<lparr>body := Some written, err := e\<rparr>)"

definition WithContext :: "go_context option \<Rightarrow> 'w Request \<Rightarrow> 'w Request" where
  "WithContext c r = r\<lparr>ctx := c\<rparr>"

definition WithExpectedStatus :: "int \<Rightarrow> 'w Request \<Rightarrow> 'w Request" where
  "WithExpectedStatus expectedStatusCode r = r\<lparr>expectedStatus := expectedStatusCode\<rparr>"

definition WithRetry :: "int \<Rightarrow> 'w Request \<Rightarrow> 'w Request" where
  "WithRetry n r = r\<lparr>retryCount := n\<rparr>"

subsection \<open>Materialising and sending\<close>

text \<open>
  \<^verbatim>\<open>toHTTPRequest\<close>: \<^verbatim>\<open>http.NewRequest\<close> on the method, \<^verbatim>\<open>baseURL+path\<close> and the
  body, then the context when one is set, then \<^verbatim>\<open>req.Header.Set\<close> for every entry of
  the header map, in the order in which \<^verbatim>\<open>Range\<close> visits them.
\<close>

definition applyHeaders :: "'v stdlib \<Rightarrow> (string \<rightharpoonup> string) \<Rightarrow> (string \<rightharpoonup> string list) \<Rightarrow> (string \<rightharpoonup> string list)" where
  "applyHeaders lib m h =
     foldl (\<lambda>h' k. case m k of None \<Rightarrow> h' | Some v \<Rightarrow> Header_Set lib h' k v) h (rangeOrder lib m)"

definition toHTTPRequest :: "'v stdlib \<Rightarrow> 'w Request \<Rightarrow> error + HTTPRequest" where
  "toHTTPRequest lib r =
     (case NewRequest lib (method_f r) (baseURL r @ path r) (body r) of
        Inl e \<Rightarrow> Inl e
      | Inr req \<Rightarrow>
          (let req1 = (case ctx r of None \<Rightarrow> req | Some c \<Rightarrow> req\<lparr>Ctx := c\<rparr>)
           in Inr (req1\<lparr>Header := applyHeaders lib (header r) (Header req1)\<rparr>)))"

text \<open>
  \<^verbatim>\<open>doRetry\<close>: one send; a transport error is returned; a response whose status is not
  the expected one is answered by a recursive call with one retry less while
  \<^verbatim>\<open>expectedStatus > 0\<close> and \<^verbatim>\<open>retryCount > 0\<close>; otherwise the response is returned.
\<close>

function doRetry :: "'w transport \<Rightarrow> HTTPRequest \<Rightarrow> int \<Rightarrow> int \<Rightarrow> 'w world \<Rightarrow> (error + HTTPResponse) \<times> 'w world" where
  "doRetry c r expected retries w =
     (case client_Do c r w of
        (Inl e, w') \<Rightarrow> (Inl e, w')
      | (Inr res, w') \<Rightarrow>
          if expected > 0 \<and> StatusCode res \<noteq> expected \<and> retries > 0
          then doRetry c r expected (retries - 1) w'
          else (Inr res, w'))"
  by pat_completeness auto
termination
  by (relation "measure (\<lambda>(c, r, expected, retries, w). nat retries)") auto

declare doRetry.simps [simp del]

subsection \<open>Responses\<close>

text \<open>
  The struct \<^verbatim>\<open>Response\<close> wraps one transport response (\<^verbatim>\<open>&Response{res: res}\<close>).
  A Go method called on a nil pointer panics; \<open>Panics\<close> is that outcome of a call.
\<close>

record Response =
  res :: HTTPResponse

datatype 'a outcome = Returns 'a | Panics

text \<open>
  Modelled from the spec: \<^verbatim>\<open>Response.StatusCode\<close>, whose code (with the other methods of
  \<^verbatim>\<open>Response\<close>) is not among the sources: "returns the stored status code; pure accessor".
\<close>

definition Response_StatusCode :: "Response \<Rightarrow> int" where
  "Response_StatusCode resp = StatusCode (res resp)"

text \<open>
  Modelled from the spec: \<^verbatim>\<open>Response.Bytes\<close>, not among the sources: "drains the body
  stream fully into a byte sequence". The terminal methods call it once, on a response
  that nothing has read.
\<close>

definition Response_Bytes :: "Response \<Rightarrow> byte list option \<times> error option" where
  "Response_Bytes resp = (Some (RespBody (res resp)), None)"

text \<open>
  Modelled from the spec: \<^verbatim>\<open>Response.JSON\<close>, not among the sources: "drains and
  deserializes the body into out; fails with a decode error if the stream is not valid
  JSON or does not match out's shape". The result is the new value of the target and the
  error of the decoder.
\<close>

definition Response_JSON :: "'v stdlib \<Rightarrow> Response \<Rightarrow> 'v \<Rightarrow> 'v \<times> error option" where
  "Response_JSON lib resp out = jsonDecode lib (RespBody (res resp)) out"

text \<open>
  Modelled from the spec: \<^verbatim>\<open>Response.XML\<close>, not among the sources: as
  \<^verbatim>\<open>Response.JSON\<close>, with the XML decoder.
\<close>

definition Response_XML :: "'v stdlib \<Rightarrow> Response \<Rightarrow> 'v \<Rightarrow> 'v \<times> error option" where
  "Response_XML lib resp out = xmlDecode lib (RespBody (res resp)) out"

text \<open>
  Modelled from the spec: \<^verbatim>\<open>Response.Close\<close>, not among the sources: "releases the
  underlying stream resource". The release is recorded in the world.
\<close>

definition Response_Close :: "Response \<Rightarrow> 'w world \<Rightarrow> 'w world" where
  "Response_Close resp w = w\<lparr>released := released w @ [res resp]\<rparr>"

subsection \<open>Terminal methods\<close>

text \<open>
  \<^verbatim>\<open>Do\<close> returns Go's pair \<^verbatim>\<open>(*Response, error)\<close>, each component \<open>None\<close> for nil,
  and the world after the sends. The three \<^verbatim>\<open>return nil, err\<close> and the final
  \<^verbatim>\<open>return &Response{res: res}, nil\<close> are the four branches.
\<close>

definition Do :: "'v stdlib \<Rightarrow> 'w Request \<Rightarrow> 'w world \<Rightarrow> (Response option \<times> error option) \<times> 'w world" where
  "Do lib r w =
     (case err r of
        Some e \<Rightarrow> ((None, Some e), w)
      | None \<Rightarrow>
          (case toHTTPRequest lib r of
             Inl e \<Rightarrow> ((None, Some e), w)
           | Inr req \<Rightarrow>
               (case doRetry (client r) req (expectedStatus r) (retryCount r) w of
                  (Inl e, w') \<Rightarrow> ((None, Some e), w')
                | (Inr x, w') \<Rightarrow> ((Some \<lparr>res = x\<rparr>, None), w'))))"

text \<open>
  The convenience methods call \<^verbatim>\<open>Do\<close>, return its error when it is not nil, and
  otherwise call a method of the response and release it (\<^verbatim>\<open>defer res.Close()\<close> runs
  after the result is computed). A nil response with a nil error would make the deferred
  call panic. The Request itself is not returned: its fields are not assigned by a
  terminal method, and what the transport reads from the buffer behind \<open>body\<close> is part
  of the state of the transport.
\<close>

definition Bytes :: "'v stdlib \<Rightarrow> 'w Request \<Rightarrow> 'w world \<Rightarrow> (byte list option \<times> error option) outcome \<times> 'w world" where
  "Bytes lib r w =
     (case Do lib r w of ((ro, eo), w') \<Rightarrow>
        (case eo of
           Some e \<Rightarrow> (Returns (None, Some e), w')
         | None \<Rightarrow>
             (case ro of
                None \<Rightarrow> (Panics, w')
              | Some resp \<Rightarrow> (Returns (Response_Bytes resp), Response_Close resp w'))))"

text \<open>\<^verbatim>\<open>String\<close>: \<^verbatim>\<open>string(bytes)\<close> of the result of \<^verbatim>\<open>Bytes\<close>; a nil slice is the empty string.\<close>

definition String :: "'v stdlib \<Rightarrow> 'w Request \<Rightarrow> 'w world \<Rightarrow> (string \<times> error option) outcome \<times> 'w world" where
  "String lib r w =
     (case Bytes lib r w of
        (Panics, w') \<Rightarrow> (Panics, w')
      | (Returns (bs, eo), w') \<Rightarrow>
          (case eo of
             Some e \<Rightarrow> (Returns ([], Some e), w')
           | None \<Rightarrow> (Returns (string_of_bytes (case bs of None \<Rightarrow> [] | Some b \<Rightarrow> b), None), w')))"

text \<open>
  \<^verbatim>\<open>JSON(out)\<close> and \<^verbatim>\<open>XML(out)\<close>: the value behind the pointer \<open>out\<close> is passed in
  and its new value is returned beside the error.
\<close>

definition JSON :: "'v stdlib \<Rightarrow> 'w Request \<Rightarrow> 'v \<Rightarrow> 'w world \<Rightarrow> error option outcome \<times> 'v \<times> 'w world" where
  "JSON lib r out w =
     (case Do lib r w of ((ro, eo), w') \<Rightarrow>
        (case eo of
           Some e \<Rightarrow> (Returns (Some e), out, w')
         | None \<Rightarrow>
             (case ro of
                None \<Rightarrow> (Panics, out, w')
              | Some resp \<Rightarrow>
                  (case Response_JSON lib resp out of (out', e) \<Rightarrow>
                     (Returns e, out', Response_Close resp w')))))"

definition XML :: "'v stdlib \<Rightarrow> 'w Request \<Rightarrow> 'v \<Rightarrow> 'w world \<Rightarrow> error option outcome \<times> 'v \<times> 'w world" where
  "XML lib r out w =
     (case Do lib r w of ((ro, eo), w') \<Rightarrow>
        (case eo of
           Some e \<Rightarrow> (Returns (Some e), out, w')
         | None \<Rightarrow>
             (case ro of
                None \<Rightarrow> (Panics, out, w')
              | Some resp \<Rightarrow>
                  (case Response_XML lib resp out of (out', e) \<Rightarrow>
                     (Returns e, out', Response_Close resp w')))))"

text \<open>
  \<^verbatim>\<open>JSONWithError(out, errOut)\<close> and \<^verbatim>\<open>XMLWithError(out, errOut)\<close>: the values behind
  the two pointers (taken to be distinct) are passed in and returned, after the pair
  \<^verbatim>\<open>(bool, error)\<close>.
\<close>

definition JSONWithError :: "'v stdlib \<Rightarrow> 'w Request \<Rightarrow> 'v \<Rightarrow> 'v \<Rightarrow> 'w world \<Rightarrow> (bool \<times> error option) outcome \<times> 'v \<times> 'v \<times> 'w world" where
  "JSONWithError lib r out errOut w =
     (case Do lib r w of ((ro, eo), w') \<Rightarrow>
        (case eo of
           Some e \<Rightarrow> (Returns (False, Some e), out, errOut, w')
         | None \<Rightarrow>
             (case ro of
                None \<Rightarrow> (Panics, out, errOut, w')
              | Some resp \<Rightarrow>
                  if expectedStatus r > 0 \<and> Response_StatusCode resp \<noteq> expectedStatus r
                  then (case Response_JSON lib resp errOut of (errOut', e) \<Rightarrow>
                          (Returns (False, e), out, errOut', Response_Close resp w'))
                  else (case Response_JSON lib resp out of (out', e) \<Rightarrow>
                          (Returns (True, e), out', errOut, Response_Close resp w')))))"

definition XMLWithError :: "'v stdlib \<Rightarrow> 'w Request \<Rightarrow> 'v \<Rightarrow> 'v \<Rightarrow> 'w world \<Rightarrow> (bool \<times> error option) outcome \<times> 'v \<times> 'v \<times> 'w world" where
  "XMLWithError lib r out errOut w =
     (case Do lib r w of ((ro, eo), w') \<Rightarrow>
        (case eo of
           Some e \<Rightarrow> (Returns (False, Some e), out, errOut, w')
         | None \<Rightarrow>
             (case ro of
                None \<Rightarrow> (Panics, out, errOut, w')
              | Some resp \<Rightarrow>
                  if expectedStatus r > 0 \<and> Response_StatusCode resp \<noteq> expectedStatus r
                  then (case Response_XML lib resp errOut of (errOut', e) \<Rightarrow>
                          (Returns (False, e), out, errOut', Response_Close resp w'))
                  else (case Response_XML lib resp out of (out', e) \<Rightarrow>
                          (Returns (True, e), out', errOut, Response_Close resp w')))))"

subsection \<open>The outcomes of successive sends\<close>

text \<open>
  The retry executor sends the same request again and again. \<open>attempts c r n k\<close> lists
  the outcomes of \<open>k\<close> successive sends of \<open>r\<close> by the transport \<open>c\<close> from the state
  \<open>n\<close>, and \<open>net_after c r n k\<close> is the state of the transport after them. An outcome
  is a \<open>mismatch\<close> when it is a response whose status is not the expected one.
\<close>

fun attempts :: "'w transport \<Rightarrow> HTTPRequest \<Rightarrow> 'w \<Rightarrow> nat \<Rightarrow> (error + HTTPResponse) list" where
  "attempts c r n 0 = []"
| "attempts c r n (Suc k) = (case c n r of (out, n') \<Rightarrow> out # attempts c r n' k)"

fun net_after :: "'w transport \<Rightarrow> HTTPRequest \<Rightarrow> 'w \<Rightarrow> nat \<Rightarrow> 'w" where
  "net_after c r n 0 = n"
| "net_after c r n (Suc k) = (case c n r of (out, n') \<Rightarrow> net_after c r n' k)"

definition mismatch :: "int \<Rightarrow> error + HTTPResponse \<Rightarrow> bool" where
  "mismatch expected out = (case out of Inl e \<Rightarrow> False | Inr x \<Rightarrow> StatusCode x \<noteq> expected)"

subsection \<open>An example environment\<close>

text \<open>
  A small instance of the parameters, on which the theorems below are exercised: three Go
  values, of which a channel cannot be encoded (\<^verbatim>\<open>encoding/json\<close> and
  \<^verbatim>\<open>encoding/xml\<close> reject channels with an unsupported-type error); the header names of
  \<^verbatim>\<open>net/textproto\<close>; a transport that answers from a script.
\<close>

datatype go_value = GoNil | GoBool bool | GoChan

definition example_jsonEncode :: "go_value \<Rightarrow> byte list \<times> error option" where
  "example_jsonEncode v =
     (case v of
        GoNil \<Rightarrow> (bytes_of_string (''null'' @ [CHR 0x0A]), None)
      | GoBool b \<Rightarrow> (bytes_of_string ((if b then ''true'' else ''false'') @ [CHR 0x0A]), None)
      | GoChan \<Rightarrow> ([], Some (Err ''json: unsupported type: chan int'')))"

definition example_xmlEncode :: "go_value \<Rightarrow> byte list \<times> error option" where
  "example_xmlEncode v =
     (case v of
        GoNil \<Rightarrow> ([], None)
      | GoBool b \<Rightarrow> (bytes_of_string (''<bool>'' @ (if b then ''true'' else ''false'') @ ''</bool>''), None)
      | GoChan \<Rightarrow> ([], Some (Err ''xml: unsupported type: chan int'')))"

definition example_jsonDecode :: "byte list \<Rightarrow> go_value \<Rightarrow> go_value \<times> error option" where
  "example_jsonDecode b out =
     (if b = bytes_of_string ''null'' then (GoNil, None)
      else if b = bytes_of_string ''true'' then (GoBool True, None)
      else if b = bytes_of_string ''false'' then (GoBool False, None)
      else (out, Some (Err ''json: cannot decode'')))"

definition example_xmlDecode :: "byte list \<Rightarrow> go_value \<Rightarrow> go_value \<times> error option" where
  "example_xmlDecode b out =
     (if b = bytes_of_string ''<bool>true</bool>'' then (GoBool True, None)
      else if b = bytes_of_string ''<bool>false</bool>'' then (GoBool False, None)
      else (out, Some (Err ''xml: cannot decode'')))"

text \<open>
  \<^verbatim>\<open>textproto.CanonicalMIMEHeaderKey\<close>: a name with a byte that is not a token
  character is left as it is; otherwise the first letter and every letter after a hyphen
  are made upper case and the other letters lower case.
\<close>

definition validHeaderFieldByte :: "char \<Rightarrow> bool" where
  "validHeaderFieldByte c =
     (let n = (of_char c :: nat) in
      n = 0x21 \<or> (0x23 \<le> n \<and> n \<le> 0x27) \<or> n = 0x2A \<or> n = 0x2B \<or> n = 0x2D \<or> n = 0x2E \<or>
      (0x30 \<le> n \<and> n \<le> 0x39) \<or> (0x41 \<le> n \<and> n \<le> 0x5A) \<or> (0x5E \<le> n \<and> n \<le> 0x7A) \<or>
      n = 0x7C \<or> n = 0x7E)"

fun canonicalise :: "bool \<Rightarrow> string \<Rightarrow> string" where
  "canonicalise upper [] = []"
| "canonicalise upper (c # cs) =
     (let n = (of_char c :: nat);
          c' = (if upper \<and> 0x61 \<le> n \<and> n \<le> 0x7A then char_of (n - 0x20)
                else if \<not> upper \<and> 0x41 \<le> n \<and> n \<le> 0x5A then char_of (n + 0x20)
                else c)
      in c' # canonicalise (c' = CHR ''-'') cs)"

definition CanonicalMIMEHeaderKey :: "string \<Rightarrow> string" where
  "CanonicalMIMEHeaderKey s = (if list_all validHeaderFieldByte s then canonicalise True s else s)"

text \<open>
  The example library. Its \<open>rangeOrder\<close> visits the keys of a map in the order of the
  list given, one of the orders that \<^verbatim>\<open>Range\<close> may take.
\<close>

definition example_lib :: "string list \<Rightarrow> go_value stdlib" where
  "example_lib order =
     \<lparr>jsonEncode = example_jsonEncode, xmlEncode = example_xmlEncode,
      jsonDecode = example_jsonDecode, xmlDecode = example_xmlDecode,
      validMethod = (\<lambda>m. m \<in> set [''GET'', ''POST'', ''PUT'', ''DELETE'']),
      parseURL = (\<lambda>u. if CHR '' '' \<in> set u then Inl (Err ''net/url: invalid character in URL'') else Inr u),
      canonicalKey = CanonicalMIMEHeaderKey,
      rangeOrder = (\<lambda>m. filter (\<lambda>k. m k \<noteq> None) order)\<rparr>"

text \<open>A transport that answers the \<open>n\<close>-th send with the \<open>n\<close>-th status of a script.\<close>

definition scripted :: "int list \<Rightarrow> nat transport" where
  "scripted statuses n r =
     (if n < length statuses then Inr \<lparr>StatusCode = statuses ! n, RespBody = bytes_of_string ''true''\<rparr>
      else Inl (Err ''dial tcp: connection refused''), Suc n)"

definition example_request :: "int list \<Rightarrow> nat Request" where
  "example_request statuses =
     \<lparr>err = None, client = scripted statuses, method_f = ''POST'',
      baseURL = ''https://api.example.com'', path = ''/widgets'', header = Map.empty,
      expectedStatus = 201, retryCount = 2, body = None, ctx = None\<rparr>"

definition example_send :: HTTPRequest where
  "example_send =
     \<lparr>Method = ''GET'', URL = ''https://api.example.com/widgets'', Header = Map.empty,
      Body = None, Ctx = Background\<rparr>"

definition example_post :: HTTPRequest where
  "example_post =
     \<lparr>Method = ''POST'', URL = ''https://api.example.com/widgets'', Header = Map.empty,
      Body = None, Ctx = Background\<rparr>"

definition example_world :: "nat world" where
  "example_world = \<lparr>net = 0, sent = [], released = []\<rparr>"

section \<open>Properties\<close>

subsection \<open>Auxiliary facts\<close>

lemma string_of_bytes_of_string: "string_of_bytes (bytes_of_string s) = s"
  by (induction s) (simp_all add: string_of_bytes_def bytes_of_string_def unat_of_nat)

lemma doRetry_error:
  "c (net w) r = (Inl e, n) \<Longrightarrow>
     doRetry c r expected retries w = (Inl e, w\<lparr>net := n, sent := sent w @ [r]\<rparr>)"
  by (subst doRetry.simps) (simp add: client_Do_def)

lemma doRetry_final:
  "c (net w) r = (Inr x, n) \<Longrightarrow> \<not> (expected > 0 \<and> StatusCode x \<noteq> expected \<and> retries > 0) \<Longrightarrow>
     doRetry c r expected retries w = (Inr x, w\<lparr>net := n, sent := sent w @ [r]\<rparr>)"
  by (subst doRetry.simps) (auto simp add: client_Do_def)

lemma doRetry_again:
  "c (net w) r = (Inr x, n) \<Longrightarrow> expected > 0 \<Longrightarrow> StatusCode x \<noteq> expected \<Longrightarrow> retries > 0 \<Longrightarrow>
     doRetry c r expected retries w =
       doRetry c r expected (retries - 1) (w\<lparr>net := n, sent := sent w @ [r]\<rparr>)"
  by (subst doRetry.simps) (simp add: client_Do_def)

lemma attempts_length: "length (attempts c r n k) = k"
  by (induction k arbitrary: n) (simp_all split: prod.splits)

lemma attempts_Suc:
  "attempts c r n (Suc k) = attempts c r n k @ [fst (c (net_after c r n k) r)]"
proof (induction k arbitrary: n)
  case 0
  then show ?case by (simp split: prod.splits)
next
  case (Suc k)
  obtain out n' where send: "c n r = (out, n')"
    by (cases "c n r")
  have "attempts c r n (Suc (Suc k)) = out # attempts c r n' (Suc k)"
    using send by simp
  also have "\<dots> = out # (attempts c r n' k @ [fst (c (net_after c r n' k) r)])"
    by (simp only: Suc.IH)
  also have "\<dots> = attempts c r n (Suc k) @ [fst (c (net_after c r n (Suc k)) r)]"
    using send by simp
  finally show ?case .
qed

lemma doRetry_trace:
  "0 < expected \<Longrightarrow> list_all (mismatch expected) (attempts c r (net w) k) \<Longrightarrow> int k \<le> retries \<Longrightarrow>
     doRetry c r expected retries w =
       doRetry c r expected (retries - int k)
         (w\<lparr>net := net_after c r (net w) k, sent := sent w @ replicate k r\<rparr>)"
proof (induction k arbitrary: w retries)
  case 0
  then show ?case by simp
next
  case (Suc k)
  obtain out n where send: "c (net w) r = (out, n)"
    by (cases "c (net w) r")
  with Suc.prems(2) have first: "mismatch expected out"
    and rest: "list_all (mismatch expected) (attempts c r n k)"
    by simp_all
  from first obtain x where out: "out = Inr x" and status: "StatusCode x \<noteq> expected"
    by (cases out) (simp_all add: mismatch_def)
  let ?w1 = "w\<lparr>net := n, sent := sent w @ [r]\<rparr>"
  from Suc.prems(3) have pos: "0 < retries" and le: "int k \<le> retries - 1"
    by simp_all
  have "doRetry c r expected retries w = doRetry c r expected (retries - 1) ?w1"
    using send out status pos Suc.prems(1) by (simp add: doRetry_again)
  also have "\<dots> = doRetry c r expected (retries - 1 - int k)
      (?w1\<lparr>net := net_after c r (net ?w1) k, sent := sent ?w1 @ replicate k r\<rparr>)"
    using Suc.IH [of ?w1 "retries - 1"] Suc.prems(1) rest le by simp
  also have "\<dots> = doRetry c r expected (retries - int (Suc k))
      (w\<lparr>net := net_after c r (net w) (Suc k), sent := sent w @ replicate (Suc k) r\<rparr>)"
    using send by (simp add: algebra_simps replicate_app_Cons_same)
  finally show ?case .
qed

lemma Do_deferred: "err r = Some e \<Longrightarrow> Do lib r w = ((None, Some e), w)"
  by (simp add: Do_def)

lemma applyHeaders_fold:
  assumes "m K = Some b"
    and "\<forall>k\<in>set ks. k \<noteq> K \<longrightarrow> m k \<noteq> None \<longrightarrow> canonicalKey lib k \<noteq> canonicalKey lib K"
  shows "foldl (\<lambda>h' k. case m k of None \<Rightarrow> h' | Some v \<Rightarrow> Header_Set lib h' k v) h ks (canonicalKey lib K)
           = (if K \<in> set ks then Some [b] else h (canonicalKey lib K))"
  using assms
proof (induction ks arbitrary: h)
  case Nil
  then show ?case by simp
next
  case (Cons k ks)
  show ?case
  proof (cases "k = K")
    case True
    with Cons show ?thesis by (simp add: Header_Set_def)
  next
    case False
    with Cons show ?thesis by (cases "m k") (auto simp add: Header_Set_def)
  qed
qed

subsection \<open>The deferred error short-circuits execution\<close>

text \<open>
  C3. For every Request whose deferred error is not nil, each terminal method (Do, Bytes,
  String, JSON, XML, JSONWithError, XMLWithError) returns that error, and the transport
  is not invoked: the world, with its record of the requests sent, is unchanged, and so
  are the decoding targets.
\<close>

theorem deferred_error_stops_terminal_methods:
  assumes "err r = Some e"
  shows "Do lib r w = ((None, Some e), w)
       \<and> Bytes lib r w = (Returns (None, Some e), w)
       \<and> String lib r w = (Returns ([], Some e), w)
       \<and> JSON lib r out w = (Returns (Some e), out, w)
       \<and> XML lib r out w = (Returns (Some e), out, w)
       \<and> JSONWithError lib r out errOut w = (Returns (False, Some e), out, errOut, w)
       \<and> XMLWithError lib r out errOut w = (Returns (False, Some e), out, errOut, w)"
  using assms
  by (simp add: Do_deferred Bytes_def String_def JSON_def XML_def JSONWithError_def XMLWithError_def)

theorem deferred_error_stops_terminal_methods_witness:
  "err (WithJSON (example_lib []) GoChan (example_request [200])) = Some (Err ''json: unsupported type: chan int'')
   \<and> Do (example_lib []) (WithJSON (example_lib []) GoChan (example_request [200])) example_world
       = ((None, Some (Err ''json: unsupported type: chan int'')), example_world)
   \<and> sent (snd (Bytes (example_lib []) (WithJSON (example_lib []) GoChan (example_request [200])) example_world)) = []"
proof -
  have h: "err (WithJSON (example_lib []) GoChan (example_request [200])) = Some (Err ''json: unsupported type: chan int'')"
    by (simp add: WithJSON_def example_lib_def example_jsonEncode_def)
  show ?thesis
    using h deferred_error_stops_terminal_methods [OF h, of "example_lib []" example_world]
    by (simp add: example_world_def)
qed

subsection \<open>Transport errors\<close>

text \<open>
  C4. When a send returns a transport error, the retry executor returns that error after
  that one invocation, whatever the expected status and the retry count: at the first
  send, and at a later send that follows \<open>k\<close> responses with an unexpected status.
\<close>

theorem transport_error_not_retried:
  "(c (net w) r = (Inl e, n) \<longrightarrow>
      doRetry c r expected retries w = (Inl e, w\<lparr>net := n, sent := sent w @ [r]\<rparr>))
   \<and> (0 < expected \<and> int k \<le> retries \<and> list_all (mismatch expected) (attempts c r (net w) k)
        \<and> c (net_after c r (net w) k) r = (Inl e, n) \<longrightarrow>
      doRetry c r expected retries w = (Inl e, w\<lparr>net := n, sent := sent w @ replicate (Suc k) r\<rparr>))"
proof (intro conjI impI)
  assume "c (net w) r = (Inl e, n)"
  then show "doRetry c r expected retries w = (Inl e, w\<lparr>net := n, sent := sent w @ [r]\<rparr>)"
    by (rule doRetry_error)
next
  assume a: "0 < expected \<and> int k \<le> retries \<and> list_all (mismatch expected) (attempts c r (net w) k)
        \<and> c (net_after c r (net w) k) r = (Inl e, n)"
  let ?w = "w\<lparr>net := net_after c r (net w) k, sent := sent w @ replicate k r\<rparr>"
  from a have "doRetry c r expected retries w = doRetry c r expected (retries - int k) ?w"
    by (simp add: doRetry_trace)
  also from a have "\<dots> = (Inl e, ?w\<lparr>net := n, sent := sent ?w @ [r]\<rparr>)"
    by (intro doRetry_error) simp
  finally show "doRetry c r expected retries w = (Inl e, w\<lparr>net := n, sent := sent w @ replicate (Suc k) r\<rparr>)"
    by (simp add: replicate_append_same)
qed

theorem transport_error_not_retried_witness:
  "doRetry (scripted []) example_send 201 2 example_world
     = (Inl (Err ''dial tcp: connection refused''), example_world\<lparr>net := 1, sent := [example_send]\<rparr>)
   \<and> doRetry (scripted [500]) example_send 201 2 example_world
     = (Inl (Err ''dial tcp: connection refused''),
        example_world\<lparr>net := 2, sent := [example_send, example_send]\<rparr>)"
proof -
  have a: "scripted [] (net example_world) example_send = (Inl (Err ''dial tcp: connection refused''), 1)"
    by (simp add: scripted_def example_world_def)
  have b: "0 < (201::int) \<and> int 1 \<le> 2
      \<and> list_all (mismatch 201) (attempts (scripted [500]) example_send (net example_world) 1)
      \<and> scripted [500] (net_after (scripted [500]) example_send (net example_world) 1) example_send
          = (Inl (Err ''dial tcp: connection refused''), 2)"
    by (simp add: scripted_def example_world_def mismatch_def)
  from a transport_error_not_retried [of "scripted []" example_world example_send _ 1 201 2 0]
  have "doRetry (scripted []) example_send 201 2 example_world
     = (Inl (Err ''dial tcp: connection refused''), example_world\<lparr>net := 1, sent := sent example_world @ [example_send]\<rparr>)"
    by blast
  moreover from b transport_error_not_retried [of "scripted [500]" example_world example_send _ 2 201 2 1]
  have "doRetry (scripted [500]) example_send 201 2 example_world
     = (Inl (Err ''dial tcp: connection refused''),
        example_world\<lparr>net := 2, sent := sent example_world @ replicate (Suc 1) example_send\<rparr>)"
    by blast
  ultimately show ?thesis
    by (simp add: example_world_def)
qed

subsection \<open>Configuration methods and the deferred error\<close>

text \<open>
  C10. WithBytes, WithString, WithHeader, WithContentType, WithContext,
  WithExpectedStatus and WithRetry neither read nor write the deferred error: each
  commutes with any assignment to \<open>err\<close>, leaves \<open>err\<close> as it was, and changes only
  its own field (for the two header methods, the entry of its key in \<open>header\<close>).
\<close>

theorem config_methods_frame:
  "(WithBytes b (r\<lparr>err := e\<rparr>) = (WithBytes b r)\<lparr>err := e\<rparr>
      \<and> err (WithBytes b r) = err r \<and> WithBytes b r = r\<lparr>body := body (WithBytes b r)\<rparr>)
   \<and> (WithString s (r\<lparr>err := e\<rparr>) = (WithString s r)\<lparr>err := e\<rparr>
      \<and> err (WithString s r) = err r \<and> WithString s r = r\<lparr>body := body (WithString s r)\<rparr>)
   \<and> (WithHeader k v (r\<lparr>err := e\<rparr>) = (WithHeader k v r)\<lparr>err := e\<rparr>
      \<and> err (WithHeader k v r) = err r \<and> WithHeader k v r = r\<lparr>header := (header r)(k \<mapsto> v)\<rparr>)
   \<and> (WithContentType t (r\<lparr>err := e\<rparr>) = (WithContentType t r)\<lparr>err := e\<rparr>
      \<and> err (WithContentType t r) = err r
      \<and> WithContentType t r = r\<lparr>header := (header r)(''Content-Type'' \<mapsto> t)\<rparr>)
   \<and> (WithContext c (r\<lparr>err := e\<rparr>) = (WithContext c r)\<lparr>err := e\<rparr>
      \<and> err (WithContext c r) = err r \<and> WithContext c r = r\<lparr>ctx := ctx (WithContext c r)\<rparr>)
   \<and> (WithExpectedStatus n (r\<lparr>err := e\<rparr>) = (WithExpectedStatus n r)\<lparr>err := e\<rparr>
      \<and> err (WithExpectedStatus n r) = err r
      \<and> WithExpectedStatus n r = r\<lparr>expectedStatus := expectedStatus (WithExpectedStatus n r)\<rparr>)
   \<and> (WithRetry n (r\<lparr>err := e\<rparr>) = (WithRetry n r)\<lparr>err := e\<rparr>
      \<and> err (WithRetry n r) = err r \<and> WithRetry n r = r\<lparr>retryCount := retryCount (WithRetry n r)\<rparr>)"
  by (simp add: WithBytes_def WithString_def WithHeader_def WithContentType_def WithContext_def
      WithExpectedStatus_def WithRetry_def)

subsection \<open>The body of the materialised request\<close>

lemma toHTTPRequest_Body: "toHTTPRequest lib r = Inr req \<Longrightarrow> Body req = body r"
  by (auto simp add: toHTTPRequest_def NewRequest_def Let_def split: sum.splits if_splits option.splits)

text \<open>
  C6. After WithBytes(b), the body of the materialised transport request, read in full,
  is \<open>b\<close>; after WithString(s) it is the bytes of \<open>s\<close>, which converted back give \<open>s\<close>.
\<close>

theorem body_round_trip:
  "(toHTTPRequest lib (WithBytes b r) = Inr req \<longrightarrow> Body req = Some b)
   \<and> (toHTTPRequest lib (WithString s r) = Inr req' \<longrightarrow>
        Body req' = Some (bytes_of_string s) \<and> map_option string_of_bytes (Body req') = Some s)"
  by (auto simp add: WithBytes_def WithString_def string_of_bytes_of_string dest!: toHTTPRequest_Body)

theorem body_round_trip_witness:
  "\<not> isl (toHTTPRequest (example_lib []) (WithBytes [104, 105] (example_request [])))
   \<and> Body (projr (toHTTPRequest (example_lib []) (WithBytes [104, 105] (example_request [])))) = Some [104, 105]
   \<and> \<not> isl (toHTTPRequest (example_lib []) (WithString ''hi'' (example_request [])))
   \<and> Body (projr (toHTTPRequest (example_lib []) (WithString ''hi'' (example_request [])))) = Some [104, 105]
   \<and> map_option string_of_bytes
        (Body (projr (toHTTPRequest (example_lib []) (WithString ''hi'' (example_request []))))) = Some ''hi''"
proof -
  obtain q where q: "toHTTPRequest (example_lib []) (WithBytes [104, 105] (example_request [])) = Inr q"
    by (simp add: toHTTPRequest_def NewRequest_def example_lib_def example_request_def WithBytes_def)
  obtain q' where q': "toHTTPRequest (example_lib []) (WithString ''hi'' (example_request [])) = Inr q'"
    by (simp add: toHTTPRequest_def NewRequest_def example_lib_def example_request_def WithString_def)
  have "bytes_of_string ''hi'' = [104, 105]"
    by (simp add: bytes_of_string_def)
  with q q' body_round_trip [of "example_lib []" "[104, 105]" "example_request []" q "''hi''" q']
  show ?thesis by auto
qed

subsection \<open>The result of Do\<close>

text \<open>
  C8. Do returns a response or an error, never both and never neither: when the error
  is not nil the response is nil, and when the error is nil the response is not nil and
  wraps the transport response that the retry executor returned for the materialised
  request.
\<close>

theorem Do_response_xor_error:
  "(snd (fst (Do lib r w)) \<noteq> None \<longrightarrow> fst (fst (Do lib r w)) = None)
   \<and> (snd (fst (Do lib r w)) = None \<longrightarrow>
        (\<exists>req x. toHTTPRequest lib r = Inr req
           \<and> fst (doRetry (client r) req (expectedStatus r) (retryCount r) w) = Inr x
           \<and> fst (fst (Do lib r w)) = Some \<lparr>res = x\<rparr>))"
  by (auto simp add: Do_def split: option.splits sum.splits prod.splits)

lemma example_toHTTPRequest:
  "toHTTPRequest (example_lib []) (example_request ss)
     = Inr \<lparr>Method = ''POST'', URL = ''https://api.example.com/widgets'', Header = Map.empty,
            Body = None, Ctx = Background\<rparr>"
  by (simp add: toHTTPRequest_def NewRequest_def example_lib_def example_request_def applyHeaders_def)

lemma example_request_fields:
  "err (example_request ss) = None" "client (example_request ss) = scripted ss"
  "expectedStatus (example_request ss) = 201" "retryCount (example_request ss) = 2"
  by (simp_all add: example_request_def)

theorem Do_response_xor_error_witness:
  "snd (fst (Do (example_lib []) (example_request []) example_world)) \<noteq> None
   \<and> fst (fst (Do (example_lib []) (example_request []) example_world)) = None
   \<and> snd (fst (Do (example_lib []) (example_request [201]) example_world)) = None
   \<and> fst (fst (Do (example_lib []) (example_request [201]) example_world))
       = Some \<lparr>res = \<lparr>StatusCode = 201, RespBody = bytes_of_string ''true''\<rparr>\<rparr>"
proof -
  let ?q = "\<lparr>Method = ''POST'', URL = ''https://api.example.com/widgets'', Header = Map.empty,
            Body = None, Ctx = Background\<rparr>"
  have d0: "doRetry (scripted []) ?q 201 2 example_world
      = (Inl (Err ''dial tcp: connection refused''), example_world\<lparr>net := 1, sent := [?q]\<rparr>)"
    by (subst doRetry.simps) (simp add: client_Do_def scripted_def example_world_def)
  have d1: "doRetry (scripted [201]) ?q 201 2 example_world
      = (Inr \<lparr>StatusCode = 201, RespBody = bytes_of_string ''true''\<rparr>, example_world\<lparr>net := 1, sent := [?q]\<rparr>)"
    by (subst doRetry.simps) (simp add: client_Do_def scripted_def example_world_def)
  have e0: "snd (fst (Do (example_lib []) (example_request []) example_world)) \<noteq> None"
    using d0 by (simp add: Do_def example_toHTTPRequest example_request_fields)
  have e1: "snd (fst (Do (example_lib []) (example_request [201]) example_world)) = None"
    using d1 by (simp add: Do_def example_toHTTPRequest example_request_fields)
  from e0 Do_response_xor_error [of "example_lib []" "example_request []" example_world]
  have "fst (fst (Do (example_lib []) (example_request []) example_world)) = None"
    by blast
  moreover from e1 Do_response_xor_error [of "example_lib []" "example_request [201]" example_world]
  obtain x where "fst (doRetry (client (example_request [201])) ?q (expectedStatus (example_request [201]))
        (retryCount (example_request [201])) example_world) = Inr x"
    and "fst (fst (Do (example_lib []) (example_request [201]) example_world)) = Some \<lparr>res = x\<rparr>"
    by (auto simp add: example_toHTTPRequest)
  ultimately show ?thesis
    using e0 e1 d1 by (simp add: example_request_fields)
qed

subsection \<open>Decoding with an error shape\<close>

text \<open>
  C5. Let the expected status of the Request be positive and let its execution return
  the response \<open>resp\<close>. If the status of \<open>resp\<close> is the expected one, JSONWithError
  returns true with the error of decoding the body into \<open>out\<close>, and \<open>errOut\<close> is as it
  was; otherwise it returns false with the error of decoding the body into \<open>errOut\<close>, and
  \<open>out\<close> is as it was. XMLWithError does the same with the XML decoder.
\<close>

theorem WithError_expected_status:
  assumes "0 < expectedStatus r"
    and "Do lib r w = ((Some resp, None), w')"
  shows "(Response_StatusCode resp = expectedStatus r \<longrightarrow>
            JSONWithError lib r out errOut w
              = (Returns (True, snd (Response_JSON lib resp out)), fst (Response_JSON lib resp out),
                 errOut, Response_Close resp w')
          \<and> XMLWithError lib r out errOut w
              = (Returns (True, snd (Response_XML lib resp out)), fst (Response_XML lib resp out),
                 errOut, Response_Close resp w'))
       \<and> (Response_StatusCode resp \<noteq> expectedStatus r \<longrightarrow>
            JSONWithError lib r out errOut w
              = (Returns (False, snd (Response_JSON lib resp errOut)), out,
                 fst (Response_JSON lib resp errOut), Response_Close resp w')
          \<and> XMLWithError lib r out errOut w
              = (Returns (False, snd (Response_XML lib resp errOut)), out,
                 fst (Response_XML lib resp errOut), Response_Close resp w'))"
  using assms
  by (simp add: JSONWithError_def XMLWithError_def split: prod.splits)

text \<open>
  C9. Let no expected status be configured (the field is zero or negative). When the
  execution returns a response, JSONWithError and XMLWithError return true and decode the
  body into \<open>out\<close>, leaving \<open>errOut\<close> as it was, whatever the status of the response;
  and the retry executor sends once, whatever the retry count.
\<close>

theorem no_expected_status:
  "(expectedStatus r \<le> 0 \<and> Do lib r w = ((Some resp, None), w') \<longrightarrow>
      JSONWithError lib r out errOut w
        = (Returns (True, snd (Response_JSON lib resp out)), fst (Response_JSON lib resp out),
           errOut, Response_Close resp w')
      \<and> XMLWithError lib r out errOut w
        = (Returns (True, snd (Response_XML lib resp out)), fst (Response_XML lib resp out),
           errOut, Response_Close resp w'))
   \<and> (expected \<le> 0 \<longrightarrow> doRetry c q expected retries w = client_Do c q w)"
proof (intro conjI impI)
  assume "expected \<le> 0"
  then show "doRetry c q expected retries w = client_Do c q w"
    by (subst doRetry.simps) (simp split: prod.splits sum.splits)
qed (simp_all add: JSONWithError_def XMLWithError_def split: prod.splits)

lemma example_Do_201:
  "Do (example_lib []) (example_request [201]) example_world
     = ((Some \<lparr>res = \<lparr>StatusCode = 201, RespBody = bytes_of_string ''true''\<rparr>\<rparr>, None),
        example_world\<lparr>net := 1, sent := [example_post]\<rparr>)"
  by (simp add: Do_def example_toHTTPRequest example_request_fields doRetry.simps client_Do_def
      scripted_def example_world_def example_post_def)

lemma example_Do_404:
  "Do (example_lib []) (example_request [500, 500, 404]) example_world
     = ((Some \<lparr>res = \<lparr>StatusCode = 404, RespBody = bytes_of_string ''true''\<rparr>\<rparr>, None),
        example_world\<lparr>net := 3, sent := [example_post, example_post, example_post]\<rparr>)"
  by (simp add: Do_def example_toHTTPRequest example_request_fields doRetry.simps client_Do_def
      scripted_def example_world_def example_post_def)

theorem WithError_expected_status_witness:
  "JSONWithError (example_lib []) (example_request [201]) GoNil GoNil example_world
     = (Returns (True, None), GoBool True, GoNil,
        example_world\<lparr>net := 1, sent := [example_post],
                        released := [\<lparr>StatusCode = 201, RespBody = bytes_of_string ''true''\<rparr>]\<rparr>)
   \<and> XMLWithError (example_lib []) (example_request [500, 500, 404]) GoNil GoNil example_world
     = (Returns (False, Some (Err ''xml: cannot decode'')), GoNil, GoNil,
        example_world\<lparr>net := 3, sent := [example_post, example_post, example_post],
                        released := [\<lparr>StatusCode = 404, RespBody = bytes_of_string ''true''\<rparr>]\<rparr>)"
proof -
  have pos: "0 < expectedStatus (example_request ss)" for ss
    by (simp add: example_request_fields)
  show ?thesis
    using WithError_expected_status [OF pos example_Do_201, of GoNil GoNil]
      WithError_expected_status [OF pos example_Do_404, of GoNil GoNil]
    by (simp add: example_request_fields Response_StatusCode_def Response_JSON_def Response_XML_def
        Response_Close_def example_lib_def example_jsonDecode_def example_xmlDecode_def
        bytes_of_string_def example_world_def)
qed

lemma example_Do_unexpected:
  "Do (example_lib []) (WithExpectedStatus 0 (example_request [500])) example_world
     = ((Some \<lparr>res = \<lparr>StatusCode = 500, RespBody = bytes_of_string ''true''\<rparr>\<rparr>, None),
        example_world\<lparr>net := 1, sent := [example_post]\<rparr>)"
  by (simp add: Do_def toHTTPRequest_def NewRequest_def applyHeaders_def example_lib_def
      example_request_def WithExpectedStatus_def doRetry.simps client_Do_def scripted_def
      example_world_def example_post_def)

theorem no_expected_status_witness:
  "JSONWithError (example_lib []) (WithExpectedStatus 0 (example_request [500])) GoNil GoChan example_world
     = (Returns (True, None), GoBool True, GoChan,
        example_world\<lparr>net := 1, sent := [example_post],
                        released := [\<lparr>StatusCode = 500, RespBody = bytes_of_string ''true''\<rparr>]\<rparr>)
   \<and> doRetry (scripted [500, 200]) example_post 0 5 example_world
     = (Inr \<lparr>StatusCode = 500, RespBody = bytes_of_string ''true''\<rparr>,
        example_world\<lparr>net := 1, sent := [example_post]\<rparr>)"
proof -
  have z: "expectedStatus (WithExpectedStatus 0 (example_request [500])) \<le> 0"
    by (simp add: WithExpectedStatus_def)
  have "JSONWithError (example_lib []) (WithExpectedStatus 0 (example_request [500])) GoNil GoChan example_world
     = (Returns (True, None), GoBool True, GoChan,
        example_world\<lparr>net := 1, sent := [example_post],
                        released := [\<lparr>StatusCode = 500, RespBody = bytes_of_string ''true''\<rparr>]\<rparr>)"
    using z example_Do_unexpected
      no_expected_status [of "WithExpectedStatus 0 (example_request [500])" "example_lib []" example_world
        _ _ GoNil GoChan 0 "scripted [500, 200]" example_post 5]
    by (simp add: Response_JSON_def Response_Close_def example_lib_def example_jsonDecode_def
        bytes_of_string_def example_world_def)
  moreover have "doRetry (scripted [500, 200]) example_post 0 5 example_world
     = (Inr \<lparr>StatusCode = 500, RespBody = bytes_of_string ''true''\<rparr>,
        example_world\<lparr>net := 1, sent := [example_post]\<rparr>)"
    using no_expected_status [of "WithExpectedStatus 0 (example_request [500])" "example_lib []" example_world
        _ _ GoNil GoChan 0 "scripted [500, 200]" example_post 5]
    by (simp add: client_Do_def scripted_def example_world_def)
  ultimately show ?thesis by simp
qed

subsection \<open>The number of sends\<close>

text \<open>
  C2. Let the expected status \<open>S\<close> be positive and the retry count \<open>N\<close> not negative. If
  the first \<open>N + 1\<close> sends all return a response with a status other than \<open>S\<close>, the
  transport is invoked exactly \<open>N + 1\<close> times and the result is the response of the last
  of these sends. If the first \<open>k\<close> sends return such responses, \<open>k \<le> N\<close>, and the next
  send (attempt \<open>k + 1 \<le> N + 1\<close>) returns a response with status \<open>S\<close>, the transport is
  invoked exactly \<open>k + 1\<close> times and that response is the result.
\<close>

theorem retry_invocation_count:
  assumes "0 < S" and "0 \<le> N"
  shows "(list_all (mismatch S) (attempts c r (net w) (Suc (nat N))) \<longrightarrow>
            fst (doRetry c r S N w) = last (attempts c r (net w) (Suc (nat N)))
          \<and> (\<exists>x. fst (doRetry c r S N w) = Inr x \<and> StatusCode x \<noteq> S)
          \<and> sent (snd (doRetry c r S N w)) = sent w @ replicate (Suc (nat N)) r)
       \<and> (int k \<le> N \<and> list_all (mismatch S) (attempts c r (net w) k)
            \<and> attempts c r (net w) (Suc k) ! k = Inr x \<and> StatusCode x = S \<longrightarrow>
            fst (doRetry c r S N w) = Inr x
          \<and> sent (snd (doRetry c r S N w)) = sent w @ replicate (Suc k) r)"
proof (intro conjI impI)
  assume all: "list_all (mismatch S) (attempts c r (net w) (Suc (nat N)))"
  let ?k = "nat N"
  let ?w = "w\<lparr>net := net_after c r (net w) ?k, sent := sent w @ replicate ?k r\<rparr>"
  obtain out n where send: "c (net_after c r (net w) ?k) r = (out, n)"
    by (cases "c (net_after c r (net w) ?k) r")
  from all have pre: "list_all (mismatch S) (attempts c r (net w) ?k)" and "mismatch S out"
    using send by (simp_all add: attempts_Suc del: attempts.simps)
  then obtain y where out: "out = Inr y" and status: "StatusCode y \<noteq> S"
    by (cases out) (simp_all add: mismatch_def)
  have "doRetry c r S N w = doRetry c r S (N - int ?k) ?w"
    using assms pre by (intro doRetry_trace) simp_all
  also have "\<dots> = (Inr y, ?w\<lparr>net := n, sent := sent ?w @ [r]\<rparr>)"
    using send out assms by (intro doRetry_final) simp_all
  finally have result: "doRetry c r S N w = (Inr y, ?w\<lparr>net := n, sent := sent ?w @ [r]\<rparr>)" .
  have lst: "last (attempts c r (net w) (Suc ?k)) = Inr y"
    using send out by (simp add: attempts_Suc del: attempts.simps)
  show "fst (doRetry c r S N w) = last (attempts c r (net w) (Suc (nat N)))"
    using result lst by simp
  show "\<exists>x. fst (doRetry c r S N w) = Inr x \<and> StatusCode x \<noteq> S"
    using result status by simp
  show "sent (snd (doRetry c r S N w)) = sent w @ replicate (Suc (nat N)) r"
    using result by (simp add: replicate_append_same)
next
  assume a: "int k \<le> N \<and> list_all (mismatch S) (attempts c r (net w) k)
            \<and> attempts c r (net w) (Suc k) ! k = Inr x \<and> StatusCode x = S"
  let ?w = "w\<lparr>net := net_after c r (net w) k, sent := sent w @ replicate k r\<rparr>"
  obtain out n where send: "c (net_after c r (net w) k) r = (out, n)"
    by (cases "c (net_after c r (net w) k) r")
  from a have out: "out = Inr x"
    using send by (simp add: attempts_Suc nth_append attempts_length del: attempts.simps)
  have "doRetry c r S N w = doRetry c r S (N - int k) ?w"
    using assms a by (intro doRetry_trace) simp_all
  also have "\<dots> = (Inr x, ?w\<lparr>net := n, sent := sent ?w @ [r]\<rparr>)"
    using send out a by (intro doRetry_final) simp_all
  finally have result: "doRetry c r S N w = (Inr x, ?w\<lparr>net := n, sent := sent ?w @ [r]\<rparr>)" .
  show "fst (doRetry c r S N w) = Inr x"
    using result by simp
  show "sent (snd (doRetry c r S N w)) = sent w @ replicate (Suc k) r"
    using result by (simp add: replicate_append_same)
qed

theorem retry_invocation_count_witness:
  "fst (doRetry (scripted [500, 500, 500, 201]) example_post 201 2 example_world)
     = Inr \<lparr>StatusCode = 500, RespBody = bytes_of_string ''true''\<rparr>
   \<and> sent (snd (doRetry (scripted [500, 500, 500, 201]) example_post 201 2 example_world))
     = [example_post, example_post, example_post]
   \<and> fst (doRetry (scripted [500, 201, 500]) example_post 201 2 example_world)
     = Inr \<lparr>StatusCode = 201, RespBody = bytes_of_string ''true''\<rparr>
   \<and> sent (snd (doRetry (scripted [500, 201, 500]) example_post 201 2 example_world))
     = [example_post, example_post]"
proof -
  have three: "Suc (nat 2) = Suc (Suc (Suc 0))"
    by simp
  have a: "list_all (mismatch 201)
      (attempts (scripted [500, 500, 500, 201]) example_post (net example_world) (Suc (nat 2)))"
    unfolding three by (simp add: scripted_def mismatch_def example_world_def)
  have l: "last (attempts (scripted [500, 500, 500, 201]) example_post (net example_world) (Suc (nat 2)))
      = Inr \<lparr>StatusCode = 500, RespBody = bytes_of_string ''true''\<rparr>"
    unfolding three by (simp add: scripted_def example_world_def)
  have b: "int 1 \<le> 2
      \<and> list_all (mismatch 201) (attempts (scripted [500, 201, 500]) example_post (net example_world) 1)
      \<and> attempts (scripted [500, 201, 500]) example_post (net example_world) (Suc 1) ! 1
          = Inr \<lparr>StatusCode = 201, RespBody = bytes_of_string ''true''\<rparr>
      \<and> StatusCode \<lparr>StatusCode = 201, RespBody = bytes_of_string ''true''\<rparr> = 201"
    by (simp add: scripted_def mismatch_def example_world_def)
  have p: "(0::int) < 201" and n: "(0::int) \<le> 2"
    by simp_all
  from a l retry_invocation_count [OF p n, of "scripted [500, 500, 500, 201]" example_post example_world]
  have "fst (doRetry (scripted [500, 500, 500, 201]) example_post 201 2 example_world)
       = Inr \<lparr>StatusCode = 500, RespBody = bytes_of_string ''true''\<rparr>
     \<and> sent (snd (doRetry (scripted [500, 500, 500, 201]) example_post 201 2 example_world))
       = sent example_world @ replicate (Suc (nat 2)) example_post"
    by simp
  moreover from b retry_invocation_count [OF p n, of "scripted [500, 201, 500]" example_post example_world 1
      "\<lparr>StatusCode = 201, RespBody = bytes_of_string ''true''\<rparr>"]
  have "fst (doRetry (scripted [500, 201, 500]) example_post 201 2 example_world)
       = Inr \<lparr>StatusCode = 201, RespBody = bytes_of_string ''true''\<rparr>
     \<and> sent (snd (doRetry (scripted [500, 201, 500]) example_post 201 2 example_world))
       = sent example_world @ replicate (Suc 1) example_post"
    by blast
  ultimately show ?thesis
    by (simp add: example_world_def numeral_3_eq_3)
qed

subsection \<open>Headers of the materialised request\<close>

lemma toHTTPRequest_Header:
  "toHTTPRequest lib r = Inr req \<Longrightarrow> Header req = applyHeaders lib (header r) Map.empty"
  by (auto simp add: toHTTPRequest_def NewRequest_def Let_def split: sum.splits if_splits option.splits)

text \<open>
  C7 (amended). Let no header name stored on the Request other than \<open>K\<close> have the
  canonical form of \<open>K\<close>, and let Range visit the stored names. After WithHeader(K, a)
  and then WithHeader(K, b), the materialised request carries under the name \<open>K\<close>
  exactly one value, \<open>b\<close>.
\<close>

theorem header_overwrite:
  assumes "toHTTPRequest lib (WithHeader K b (WithHeader K a r)) = Inr req"
    and "set (rangeOrder lib (header (WithHeader K b (WithHeader K a r))))
           = dom (header (WithHeader K b (WithHeader K a r)))"
    and "\<forall>k. k \<noteq> K \<and> header r k \<noteq> None \<longrightarrow> canonicalKey lib k \<noteq> canonicalKey lib K"
  shows "Header req (canonicalKey lib K) = Some [b] \<and> Header_Values lib (Header req) K = [b]"
proof -
  let ?m = "header (WithHeader K b (WithHeader K a r))"
  have m: "?m = (header r)(K \<mapsto> b)"
    by (simp add: WithHeader_def)
  have visited: "K \<in> set (rangeOrder lib ?m)"
    using assms(2) by (simp add: m)
  have "Header req (canonicalKey lib K) = applyHeaders lib ?m Map.empty (canonicalKey lib K)"
    using assms(1) by (simp add: toHTTPRequest_Header)
  also have "\<dots> = (if K \<in> set (rangeOrder lib ?m) then Some [b] else Map.empty (canonicalKey lib K))"
    unfolding applyHeaders_def using assms(3) by (intro applyHeaders_fold) (simp_all add: m)
  finally have "Header req (canonicalKey lib K) = Some [b]"
    using visited by simp
  then show ?thesis
    by (simp add: Header_Values_def)
qed

lemma canonical_examples:
  "CanonicalMIMEHeaderKey ''X'' = ''X''" "CanonicalMIMEHeaderKey ''x'' = ''X''"
  "CanonicalMIMEHeaderKey ''Content-Type'' = ''Content-Type''"
  by code_simp+

theorem header_overwrite_witness:
  "\<not> isl (toHTTPRequest (example_lib [''Content-Type'', ''X''])
            (WithHeader ''X'' ''b'' (WithHeader ''X'' ''a'' (WithContentType ''text/plain'' (example_request [])))))
   \<and> Header_Values (example_lib [''Content-Type'', ''X''])
        (Header (projr (toHTTPRequest (example_lib [''Content-Type'', ''X''])
            (WithHeader ''X'' ''b'' (WithHeader ''X'' ''a'' (WithContentType ''text/plain'' (example_request [])))))))
        ''X'' = [''b'']"
proof -
  let ?lib = "example_lib [''Content-Type'', ''X'']"
  let ?r = "WithContentType ''text/plain'' (example_request [])"
  obtain q where q: "toHTTPRequest ?lib (WithHeader ''X'' ''b'' (WithHeader ''X'' ''a'' ?r)) = Inr q"
    by (simp add: toHTTPRequest_def NewRequest_def example_lib_def example_request_def
        WithHeader_def WithContentType_def)
  have visits: "set (rangeOrder ?lib (header (WithHeader ''X'' ''b'' (WithHeader ''X'' ''a'' ?r))))
      = dom (header (WithHeader ''X'' ''b'' (WithHeader ''X'' ''a'' ?r)))"
    by (auto simp add: example_lib_def example_request_def WithHeader_def WithContentType_def)
  have others: "\<forall>k. k \<noteq> ''X'' \<and> header ?r k \<noteq> None \<longrightarrow> canonicalKey ?lib k \<noteq> canonicalKey ?lib ''X''"
    by (simp add: example_lib_def example_request_def WithHeader_def WithContentType_def
        canonical_examples)
  from header_overwrite [OF q visits others] q show ?thesis
    by simp
qed

theorem header_overwrite_counterexample:
  "\<not> isl (toHTTPRequest (example_lib [''X'', ''x''])
            (WithHeader ''X'' ''b'' (WithHeader ''X'' ''a'' (WithHeader ''x'' ''z'' (example_request [])))))
   \<and> Header_Values (example_lib [''X'', ''x''])
        (Header (projr (toHTTPRequest (example_lib [''X'', ''x''])
            (WithHeader ''X'' ''b'' (WithHeader ''X'' ''a'' (WithHeader ''x'' ''z'' (example_request [])))))))
        ''X'' = [''z'']
   \<and> Header_Values (example_lib [''X'', ''x''])
        (Header (projr (toHTTPRequest (example_lib [''X'', ''x''])
            (WithHeader ''X'' ''b'' (WithHeader ''X'' ''a'' (WithHeader ''x'' ''z'' (example_request [])))))))
        ''X'' \<noteq> [''b'']
   \<and> distinct (rangeOrder (example_lib [''X'', ''x''])
        (header (WithHeader ''X'' ''b'' (WithHeader ''X'' ''a'' (WithHeader ''x'' ''z'' (example_request []))))))
   \<and> set (rangeOrder (example_lib [''X'', ''x''])
        (header (WithHeader ''X'' ''b'' (WithHeader ''X'' ''a'' (WithHeader ''x'' ''z'' (example_request []))))))
       = dom (header (WithHeader ''X'' ''b'' (WithHeader ''X'' ''a'' (WithHeader ''x'' ''z'' (example_request [])))))"
  by (auto simp add: toHTTPRequest_def NewRequest_def example_lib_def example_request_def
      WithHeader_def applyHeaders_def Header_Set_def Header_Values_def canonical_examples)

subsection \<open>The deferred error under later configuration calls\<close>

text \<open>
  C1 (amended). Once the deferred error is set, WithBytes, WithString, WithHeader,
  WithContentType, WithContext, WithExpectedStatus and WithRetry preserve it, and Do on
  the Request so configured fails at once with that error, the transport not being
  invoked. A later WithJSON or WithXML replaces the stored error by the result of its own
  encoding (nil when the encoding succeeds), and Do fails at once with the error stored
  then, when there is one.
\<close>

theorem deferred_error_under_configuration:
  assumes "err r = Some e"
  shows "(err (WithBytes b r) = Some e \<and> Do lib (WithBytes b r) w = ((None, Some e), w))
       \<and> (err (WithString s r) = Some e \<and> Do lib (WithString s r) w = ((None, Some e), w))
       \<and> (err (WithHeader k v r) = Some e \<and> Do lib (WithHeader k v r) w = ((None, Some e), w))
       \<and> (err (WithContentType t r) = Some e \<and> Do lib (WithContentType t r) w = ((None, Some e), w))
       \<and> (err (WithContext c r) = Some e \<and> Do lib (WithContext c r) w = ((None, Some e), w))
       \<and> (err (WithExpectedStatus n r) = Some e \<and> Do lib (WithExpectedStatus n r) w = ((None, Some e), w))
       \<and> (err (WithRetry n r) = Some e \<and> Do lib (WithRetry n r) w = ((None, Some e), w))
       \<and> err (WithJSON lib x r) = snd (jsonEncode lib x)
       \<and> err (WithXML lib x r) = snd (xmlEncode lib x)
       \<and> (snd (jsonEncode lib x) = Some e' \<longrightarrow> Do lib (WithJSON lib x r) w = ((None, Some e'), w))
       \<and> (snd (xmlEncode lib x) = Some e' \<longrightarrow> Do lib (WithXML lib x r) w = ((None, Some e'), w))"
proof -
  have json: "err (WithJSON lib x r) = snd (jsonEncode lib x)"
    by (simp add: WithJSON_def split: prod.splits)
  have xml: "err (WithXML lib x r) = snd (xmlEncode lib x)"
    by (simp add: WithXML_def split: prod.splits)
  have kept: "err (WithBytes b r) = Some e" "err (WithString s r) = Some e"
    "err (WithHeader k v r) = Some e" "err (WithContentType t r) = Some e"
    "err (WithContext c r) = Some e" "err (WithExpectedStatus n r) = Some e"
    "err (WithRetry n r) = Some e"
    using assms
    by (simp_all add: WithBytes_def WithString_def WithHeader_def WithContentType_def
        WithContext_def WithExpectedStatus_def WithRetry_def)
  show ?thesis
    using kept json xml by (simp add: Do_deferred)
qed

theorem deferred_error_under_configuration_witness:
  "err (WithJSON (example_lib []) GoChan (example_request [201])) = Some (Err ''json: unsupported type: chan int'')
   \<and> err (WithRetry 3 (WithJSON (example_lib []) GoChan (example_request [201])))
       = Some (Err ''json: unsupported type: chan int'')
   \<and> Do (example_lib []) (WithBytes [1] (WithJSON (example_lib []) GoChan (example_request [201]))) example_world
       = ((None, Some (Err ''json: unsupported type: chan int'')), example_world)
   \<and> Do (example_lib []) (WithXML (example_lib []) GoChan (WithJSON (example_lib []) GoChan (example_request [201])))
        example_world
       = ((None, Some (Err ''xml: unsupported type: chan int'')), example_world)"
proof -
  have h: "err (WithJSON (example_lib []) GoChan (example_request [201])) = Some (Err ''json: unsupported type: chan int'')"
    by (simp add: WithJSON_def example_lib_def example_jsonEncode_def)
  have x: "snd (xmlEncode (example_lib []) GoChan) = Some (Err ''xml: unsupported type: chan int'')"
    by (simp add: example_lib_def example_xmlEncode_def)
  show ?thesis
    using h x deferred_error_under_configuration [OF h, of "[1]" "example_lib []" example_world _ _ _ _ _ 3 GoChan
        "Err ''xml: unsupported type: chan int''"]
    by simp
qed

theorem deferred_error_counterexample:
  "err (WithJSON (example_lib [''Content-Type'']) GoChan (example_request [201]))
     = Some (Err ''json: unsupported type: chan int'')
   \<and> err (WithJSON (example_lib [''Content-Type'']) GoNil
            (WithJSON (example_lib [''Content-Type'']) GoChan (example_request [201]))) = None
   \<and> fst (Do (example_lib [''Content-Type''])
            (WithJSON (example_lib [''Content-Type'']) GoNil
              (WithJSON (example_lib [''Content-Type'']) GoChan (example_request [201])))
            example_world)
     = (Some \<lparr>res = \<lparr>StatusCode = 201, RespBody = bytes_of_string ''true''\<rparr>\<rparr>, None)"
  by (simp add: WithJSON_def WithContentType_def WithHeader_def example_lib_def example_jsonEncode_def
      example_request_def Do_def toHTTPRequest_def NewRequest_def doRetry.simps client_Do_def
      scripted_def example_world_def)

end
